theory Spec2Isabelle
  imports Main "HOL-Library.Word"
begin

unbundle bit_operations_syntax

section \<open>Buffers and errors\<close>

text \<open>
  A Node \<^verbatim>\<open>Buffer\<close> is a sequence of bytes. Reading a byte yields a number in
  \<open>0..255\<close> and storing one keeps the low eight bits, so a byte is an \<open>8 word\<close>.
\<close>

type_synonym byte = "8 word"
type_synonym Buffer = "byte list"

section \<open>lib/devices/u2f.js: wrapAPDU\<close>

text \<open>
  \<^verbatim>\<open>key[i % key.length]\<close>: for a non-empty key the index is in range. For an empty
  key JavaScript computes \<^verbatim>\<open>i % 0 = NaN\<close>, the read gives \<^verbatim>\<open>undefined\<close>, and
  \<^verbatim>\<open>x ^ undefined\<close> is \<^verbatim>\<open>x ^ 0\<close>; the byte read is therefore 0 in that case.
\<close>

definition keyByte :: "Buffer \<Rightarrow> nat \<Rightarrow> byte" where
  "keyByte key i = (if length key = 0 then 0 else key ! (i mod length key))"

text \<open>
  The \<^verbatim>\<open>for\<close> loop of \<^verbatim>\<open>wrapAPDU\<close>, with the loop counter \<open>i\<close> and the buffer
  \<open>result\<close> as loop state. Every write \<^verbatim>\<open>result[i] = ...\<close> is in range, since
  \<open>result\<close> was allocated with the length of \<open>apdu\<close>.
\<close>

function wrapAPDU_loop :: "Buffer \<Rightarrow> Buffer \<Rightarrow> nat \<Rightarrow> Buffer \<Rightarrow> Buffer" where
  "wrapAPDU_loop apdu key i result =
     (if i < length apdu
      then wrapAPDU_loop apdu key (Suc i) (result[i := (apdu ! i) XOR keyByte key i])
      else result)"
  by pat_completeness auto
termination
  by (relation "measure (\<lambda>(apdu, key, i, result). length apdu - i)") auto

declare wrapAPDU_loop.simps [simp del]

text \<open>\<^verbatim>\<open>Buffer.alloc(n)\<close> is zero-filled.\<close>

definition wrapAPDU :: "Buffer \<Rightarrow> Buffer \<Rightarrow> Buffer" where
  "wrapAPDU apdu key = wrapAPDU_loop apdu key 0 (replicate (length apdu) 0)"


section \<open>JavaScript values and exceptions\<close>

text \<open>
  The exceptions the modelled code can raise: a failed \<^verbatim>\<open>assert(cond, msg)\<close>
  (Node's \<^verbatim>\<open>AssertionError\<close>, with its message), the repository's own
  \<^verbatim>\<open>LedgerError\<close> (with its message), and the \<^verbatim>\<open>TypeError\<close> that JavaScript
  raises when a property of \<^verbatim>\<open>null\<close> or \<^verbatim>\<open>undefined\<close> is read.
  In the vocabulary of the specification a failed assertion of \<^verbatim>\<open>fromOptions\<close> is
  \<open>InvalidInput\<close>, the \<^verbatim>\<open>LedgerError\<close> of \<^verbatim>\<open>getRing\<close> is \<open>MissingKey\<close> and the
  \<^verbatim>\<open>LedgerError\<close> of \<^verbatim>\<open>enforceSupport\<close> is \<open>Unsupported\<close>.
\<close>

datatype error = AssertionError string | LedgerError string | TypeError string

text \<open>
  bcoin's records, as far as the code reads them: a transaction exposes its outputs, an
  output its script and value, a script its raw bytes.
\<close>

datatype Script = Script (raw: Buffer)

record Output =
  out_script :: Script
  out_value :: nat

record TX =
  outputs :: "Output list"

text \<open>
  The values a field of the \<^verbatim>\<open>options\<close> object can hold. \<open>JNum i\<close> is a number with
  the integral value \<open>i\<close> (\<open>-0\<close> is identified with \<open>0\<close>: both are falsy and both pass
  \<^verbatim>\<open>isU32\<close>), \<open>JFrac\<close> any number that is not integral and not \<^verbatim>\<open>NaN\<close> (a fraction
  or an infinity), \<open>JObject\<close> any other object (or function): one that is not an
  array, a \<^verbatim>\<open>Buffer\<close>, a \<^verbatim>\<open>TX\<close> or a \<^verbatim>\<open>Script\<close>.
\<close>

datatype jsval =
    Undefined
  | Null
  | JBool bool
  | JNum int
  | JFrac
  | JNaN
  | JStr string
  | JArray "jsval list"
  | JBuffer Buffer
  | JTX TX
  | JScript Script
  | JObject

text \<open>JavaScript's \<^verbatim>\<open>ToBoolean\<close>, which \<^verbatim>\<open>assert(v)\<close> and \<^verbatim>\<open>!v\<close> apply.\<close>

fun truthy :: "jsval \<Rightarrow> bool" where
  "truthy Undefined = False"
| "truthy Null = False"
| "truthy (JBool b) = b"
| "truthy (JNum i) = (i \<noteq> 0)"
| "truthy JNaN = False"
| "truthy (JStr s) = (s \<noteq> [])"
| "truthy v = True"

text \<open>\<^verbatim>\<open>v != null\<close> (loose inequality): false exactly for \<^verbatim>\<open>null\<close> and \<^verbatim>\<open>undefined\<close>.\<close>

fun notNullish :: "jsval \<Rightarrow> bool" where
  "notNullish Undefined = False"
| "notNullish Null = False"
| "notNullish v = True"

text \<open>\<^verbatim>\<open>typeof v === 'string'\<close> and \<^verbatim>\<open>typeof v === 'number'\<close>.\<close>

fun isString :: "jsval \<Rightarrow> bool" where
  "isString (JStr s) = True"
| "isString v = False"

fun isNumber :: "jsval \<Rightarrow> bool" where
  "isNumber (JNum i) = True"
| "isNumber JFrac = True"
| "isNumber JNaN = True"
| "isNumber v = False"

text \<open>\<^verbatim>\<open>Array.isArray\<close>, \<^verbatim>\<open>Buffer.isBuffer\<close>, \<^verbatim>\<open>TX.isTX\<close>, \<^verbatim>\<open>Script.isScript\<close>.\<close>

fun isArray :: "jsval \<Rightarrow> bool" where
  "isArray (JArray xs) = True"
| "isArray v = False"

fun isBuffer :: "jsval \<Rightarrow> bool" where
  "isBuffer (JBuffer b) = True"
| "isBuffer v = False"

fun isTX :: "jsval \<Rightarrow> bool" where
  "isTX (JTX t) = True"
| "isTX v = False"

fun isScript :: "jsval \<Rightarrow> bool" where
  "isScript (JScript s) = True"
| "isScript v = False"

text \<open>
  \<^verbatim>\<open>isU32(value) = (value >>> 0) === value\<close>. \<^verbatim>\<open>>>> 0\<close> is \<^verbatim>\<open>ToUint32\<close>: an integral
  number is reduced modulo \<open>2^32\<close>, a fraction is truncated first (so the result differs
  from the operand), \<^verbatim>\<open>NaN\<close> and the infinities give 0, and a value that is not a number
  gives a number, which is never strictly equal to it.
\<close>

fun isU32 :: "jsval \<Rightarrow> bool" where
  "isU32 (JNum i) = (i mod 2 ^ 32 = i)"
| "isU32 v = False"

text \<open>Projections, used only after the corresponding test has succeeded.\<close>

fun strOf :: "jsval \<Rightarrow> string" where
  "strOf (JStr s) = s"
| "strOf v = []"

fun itemsOf :: "jsval \<Rightarrow> jsval list" where
  "itemsOf (JArray xs) = xs"
| "itemsOf v = []"

fun bytesOf :: "jsval \<Rightarrow> Buffer" where
  "bytesOf (JBuffer b) = b"
| "bytesOf v = []"

fun txOf :: "jsval \<Rightarrow> TX option" where
  "txOf (JTX t) = Some t"
| "txOf v = None"

fun scriptOf :: "jsval \<Rightarrow> Script option" where
  "scriptOf (JScript s) = Some s"
| "scriptOf v = None"

fun u32Of :: "jsval \<Rightarrow> nat" where
  "u32Of (JNum i) = nat i"
| "u32Of v = 0"

text \<open>
  An options object is a dictionary from property names to values; a property that is
  absent reads as \<^verbatim>\<open>undefined\<close>. The argument \<^verbatim>\<open>options\<close> itself may be missing (or
  otherwise falsy), which is \<open>None\<close>; a truthy argument that is not an object has no
  properties, which is \<open>Some noOptions\<close>.
\<close>

type_synonym Options = "string \<Rightarrow> jsval"

definition noOptions :: Options where
  "noOptions = (\<lambda>name. Undefined)"

text \<open>Sequencing of statements that may throw, and \<^verbatim>\<open>assert(cond, msg)\<close>.\<close>

definition andThen :: "error + 'a \<Rightarrow> ('a \<Rightarrow> error + 'b) \<Rightarrow> error + 'b" where
  "andThen m f = (case m of Inl e \<Rightarrow> Inl e | Inr x \<Rightarrow> f x)"

definition assert :: "bool \<Rightarrow> string \<Rightarrow> error + unit" where
  "assert cond msg = (if cond then Inr () else Inl (AssertionError msg))"

section \<open>LedgerTXInput (the transaction input of the signing protocol)\<close>

text \<open>bcoin's \<^verbatim>\<open>Script.hashType.ALL\<close>.\<close>

definition hashType_ALL :: int where
  "hashType_ALL = 1"

text \<open>
  bcoin's \<^verbatim>\<open>KeyRing\<close>: the code writes its \<^verbatim>\<open>script\<close> property; everything else the
  ring holds is \<open>ring_body\<close>, as \<^verbatim>\<open>KeyRing.fromPublic\<close> built it.
\<close>

record 'r KeyRing =
  ring_body :: 'r
  ring_script :: "Script option"

text \<open>
  The fields of a \<^verbatim>\<open>LedgerTXInput\<close>. The four caches \<^verbatim>\<open>_ring\<close>, \<^verbatim>\<open>_coin\<close>, \<^verbatim>\<open>_key\<close>
  and \<^verbatim>\<open>_prev\<close> are \<open>cache_ring\<close>, \<open>cache_coin\<close>, \<open>cache_key\<close> and \<open>cache_prev\<close>;
  \<^verbatim>\<open>null\<close> is \<open>None\<close>. A coin is an object whose identity matters to its callers, so
  \<open>cache_coin\<close> holds a reference: the position of the coin in the store of allocated
  coins (a list, to which every \<^verbatim>\<open>Coin.fromTX\<close> appends).
\<close>

record 'r LedgerTXInput =
  path :: "jsval list"
  tx :: "TX option"
  index :: nat
  redeem :: "Script option"
  type :: jsval
  publicKey :: "Buffer option"
  cache_ring :: "'r KeyRing option"
  cache_coin :: "nat option"
  cache_key :: string
  cache_prev :: "Script option"

text \<open>The constructor's field initialisers (the state of \<^verbatim>\<open>new LedgerTXInput()\<close>).\<close>

definition newInput :: "'r LedgerTXInput" where
  "newInput = \<lparr> path = [], tx = None, index = 0, redeem = None,
                type = JNum hashType_ALL, publicKey = None,
                cache_ring = None, cache_coin = None, cache_key = [], cache_prev = None \<rparr>"

text \<open>
  \<^verbatim>\<open>if (typeof options.path === 'string') options.path = util.parsePath(options.path, true)\<close>
  and
  \<^verbatim>\<open>if (Buffer.isBuffer(options.tx)) options.tx = TX.fromRaw(options.tx)\<close>.
  \<^verbatim>\<open>util.parsePath\<close> and bcoin's \<^verbatim>\<open>TX.fromRaw\<close> are parameters; either may throw.
\<close>

definition resolvePath :: "(string \<Rightarrow> bool \<Rightarrow> error + jsval) \<Rightarrow> jsval \<Rightarrow> error + jsval" where
  "resolvePath parsePath p = (if isString p then parsePath (strOf p) True else Inr p)"

definition resolveTx :: "(Buffer \<Rightarrow> error + TX) \<Rightarrow> jsval \<Rightarrow> error + jsval" where
  "resolveTx TX_fromRaw t =
     (if isBuffer t then andThen (TX_fromRaw (bytesOf t)) (\<lambda>x. Inr (JTX x)) else Inr t)"

text \<open>
  The method \<^verbatim>\<open>fromOptions(options)\<close>, statement by statement. The result is the
  updated \<^verbatim>\<open>this\<close>, or the exception thrown. (The write-back of the parsed path and
  transaction into \<^verbatim>\<open>options\<close> is not part of the result.)
\<close>

definition fromOptions ::
  "(string \<Rightarrow> bool \<Rightarrow> error + jsval) \<Rightarrow> (Buffer \<Rightarrow> error + TX) \<Rightarrow>
   'r LedgerTXInput \<Rightarrow> Options option \<Rightarrow> error + 'r LedgerTXInput" where
  "fromOptions parsePath TX_fromRaw this options =
     andThen (assert (options \<noteq> None) ''SignInput data is required.'') (\<lambda>_.
     let opts = (case options of Some opts \<Rightarrow> opts | None \<Rightarrow> noOptions) in
     andThen (assert (truthy (opts ''path'')) ''Path is required.'') (\<lambda>_.
     andThen (resolvePath parsePath (opts ''path'')) (\<lambda>p.
     andThen (assert (isArray p) ''Path must be Array or string'') (\<lambda>_.
     let this = this\<lparr>path := itemsOf p\<rparr> in
     andThen (assert (truthy (opts ''tx'')) ''Tx is required.'') (\<lambda>_.
     andThen (resolveTx TX_fromRaw (opts ''tx'')) (\<lambda>t.
     andThen (assert (isTX t) ''Cannot use non-transaction tx.'') (\<lambda>_.
     let this = this\<lparr>tx := txOf t\<rparr> in
     andThen (assert (isNumber (opts ''index'')) ''Output index is required.'') (\<lambda>_.
     andThen (assert (isU32 (opts ''index'')) ''Output index must be a uint32.'') (\<lambda>_.
     let this = this\<lparr>index := u32Of (opts ''index'')\<rparr> in
     andThen (if notNullish (opts ''type'')
              then andThen (assert (opts ''type'' \<noteq> JNum hashType_ALL)
                                   ''Ledger only supports SIGHASH_ALL'') (\<lambda>_.
                   Inr (this\<lparr>type := opts ''type''\<rparr>))
              else Inr this) (\<lambda>this.
     andThen (if notNullish (opts ''redeem'')
              then andThen (assert (isScript (opts ''redeem''))
                                   ''Cannot use non-script redeem.'') (\<lambda>_.
                   Inr (this\<lparr>redeem := scriptOf (opts ''redeem'')\<rparr>))
              else Inr this) (\<lambda>this.
     andThen (if notNullish (opts ''publicKey'')
              then andThen (assert (isBuffer (opts ''publicKey''))
                                   ''Cannot set non-buffer public key'') (\<lambda>_.
                   Inr (this\<lparr>publicKey := Some (bytesOf (opts ''publicKey''))\<rparr>))
              else Inr this) (\<lambda>this.
     Inr this))))))))))))"

text \<open>\<^verbatim>\<open>static fromOptions(options) { return new this().fromOptions(options); }\<close>\<close>

definition fromOptions_static ::
  "(string \<Rightarrow> bool \<Rightarrow> error + jsval) \<Rightarrow> (Buffer \<Rightarrow> error + TX) \<Rightarrow>
   Options option \<Rightarrow> error + 'r LedgerTXInput" where
  "fromOptions_static parsePath TX_fromRaw options =
     fromOptions parsePath TX_fromRaw newInput options"

text \<open>
  \<^verbatim>\<open>new LedgerTXInput(options)\<close>: the field initialisers, then
  \<^verbatim>\<open>if (options) this.fromOptions(options)\<close>.
\<close>

definition construct ::
  "(string \<Rightarrow> bool \<Rightarrow> error + jsval) \<Rightarrow> (Buffer \<Rightarrow> error + TX) \<Rightarrow>
   Options option \<Rightarrow> error + 'r LedgerTXInput" where
  "construct parsePath TX_fromRaw options =
     (case options of
        None \<Rightarrow> Inr newInput
      | Some opts \<Rightarrow> fromOptions parsePath TX_fromRaw newInput options)"

text \<open>
  \<^verbatim>\<open>toKey()\<close>. \<^verbatim>\<open>Outpoint.fromTX(tx, index).toKey()\<close> is bcoin's and a parameter; the
  empty string is falsy, so an empty cached key is computed again.
\<close>

definition toKey ::
  "(TX option \<Rightarrow> nat \<Rightarrow> error + string) \<Rightarrow> 'r LedgerTXInput \<Rightarrow> error + string \<times> 'r LedgerTXInput" where
  "toKey Outpoint_key this =
     (if cache_key this = []
      then andThen (Outpoint_key (tx this) (index this)) (\<lambda>k. Inr (k, this\<lparr>cache_key := k\<rparr>))
      else Inr (cache_key this, this))"

text \<open>
  \<^verbatim>\<open>getPrev()\<close>. Reading \<^verbatim>\<open>outputs\<close> of a \<^verbatim>\<open>null\<close> transaction, or \<^verbatim>\<open>script\<close> of an
  output that does not exist, throws a \<^verbatim>\<open>TypeError\<close>.
\<close>

definition getPrev :: "'r LedgerTXInput \<Rightarrow> error + Script \<times> 'r LedgerTXInput" where
  "getPrev this =
     (case cache_prev this of
        Some s \<Rightarrow> Inr (s, this)
      | None \<Rightarrow>
          (case tx this of
             None \<Rightarrow> Inl (TypeError ''Cannot read properties of null'')
           | Some t \<Rightarrow>
               if index this < length (outputs t)
               then let s = out_script (outputs t ! index this)
                    in Inr (s, this\<lparr>cache_prev := Some s\<rparr>)
               else Inl (TypeError ''Cannot read properties of undefined'')))"

text \<open>
  \<^verbatim>\<open>getCoin(height = 0)\<close>. The default applies to an \<^verbatim>\<open>undefined\<close> argument only.
  bcoin's \<^verbatim>\<open>Coin.fromTX(tx, index, height)\<close> is a parameter that computes the content of
  the new coin, or throws; the new coin object is allocated at the end of the store. The
  result is the reference returned, the store and the updated \<^verbatim>\<open>this\<close>.
\<close>

definition getCoin ::
  "(TX option \<Rightarrow> nat \<Rightarrow> jsval \<Rightarrow> error + 'c) \<Rightarrow> jsval \<Rightarrow> 'c list \<times> 'r LedgerTXInput \<Rightarrow>
   error + nat \<times> 'c list \<times> 'r LedgerTXInput" where
  "getCoin Coin_fromTX height st =
     (let store = fst st; this = snd st;
          height = (if height = Undefined then JNum 0 else height)
      in case cache_coin this of
           Some ref \<Rightarrow> Inr (ref, store, this)
         | None \<Rightarrow>
             andThen (Coin_fromTX (tx this) (index this) height) (\<lambda>coin.
               Inr (length store, store @ [coin], this\<lparr>cache_coin := Some (length store)\<rparr>)))"

text \<open>
  \<^verbatim>\<open>getRing(network = Network.primary)\<close>. bcoin's \<^verbatim>\<open>KeyRing.fromPublic(key, network)\<close>
  is a parameter and may throw; \<open>primary\<close> is \<^verbatim>\<open>Network.primary\<close> and \<open>None\<close> an
  \<^verbatim>\<open>undefined\<close> argument.
\<close>

definition getRing ::
  "(Buffer \<Rightarrow> 'n \<Rightarrow> error + 'r KeyRing) \<Rightarrow> 'n \<Rightarrow> 'n option \<Rightarrow> 'r LedgerTXInput \<Rightarrow>
   error + 'r KeyRing \<times> 'r LedgerTXInput" where
  "getRing KeyRing_fromPublic primary network this =
     (let network = (case network of None \<Rightarrow> primary | Some n \<Rightarrow> n)
      in case publicKey this of
           None \<Rightarrow> Inl (LedgerError ''Cannot return ring without public key'')
         | Some key \<Rightarrow>
             (case cache_ring this of
                Some ring \<Rightarrow> Inr (ring, this)
              | None \<Rightarrow>
                  andThen (KeyRing_fromPublic key network) (\<lambda>ring.
                    let ring = (case redeem this of
                                  Some s \<Rightarrow> ring\<lparr>ring_script := Some s\<rparr>
                                | None \<Rightarrow> ring)
                    in Inr (ring, this\<lparr>cache_ring := Some ring\<rparr>))))"

text \<open>\<^verbatim>\<open>refresh()\<close>: the four assignments.\<close>

definition refresh :: "'r LedgerTXInput \<Rightarrow> 'r LedgerTXInput" where
  "refresh this = this\<lparr>cache_coin := None, cache_ring := None, cache_key := [], cache_prev := None\<rparr>"

section \<open>lib/devices/u2f.js: the support probe\<close>

text \<open>
  \<^verbatim>\<open>U2F.isSupported()\<close> of the \<^verbatim>\<open>u2f-api\<close> package is a parameter: a probe of the
  environment \<open>'w\<close> that resolves to a boolean or rejects, and may change the
  environment. An \<^verbatim>\<open>async\<close> function is modelled by its outcome once awaited.
\<close>

type_synonym 'w probe = "'w \<Rightarrow> (error + bool) \<times> 'w"

definition U2FDevice_isSupported :: "'w probe \<Rightarrow> 'w \<Rightarrow> (error + bool) \<times> 'w" where
  "U2FDevice_isSupported U2F_isSupported w = U2F_isSupported w"

definition U2FDevice_enforceSupport :: "'w probe \<Rightarrow> 'w \<Rightarrow> (error + unit) \<times> 'w" where
  "U2FDevice_enforceSupport U2F_isSupported w =
     (case U2FDevice_isSupported U2F_isSupported w of
        (Inl e, w') \<Rightarrow> (Inl e, w')
      | (Inr supported, w') \<Rightarrow>
          if \<not> supported then (Inl (LedgerError ''U2F is not supported''), w')
          else (Inr (), w'))"

definition U2FDevice_open :: "'w probe \<Rightarrow> 'w \<Rightarrow> (error + unit) \<times> 'w" where
  "U2FDevice_open U2F_isSupported w = U2FDevice_enforceSupport U2F_isSupported w"

definition U2FDevice_close :: "'w \<Rightarrow> (error + unit) \<times> 'w" where
  "U2FDevice_close w = (Inr (), w)"

section \<open>Output finalization\<close>

text \<open>
  Modelled from the spec: \<^verbatim>\<open>LedgerBcoin.hashOutputFinalize\<close> (required by the test as
  \<^verbatim>\<open>../lib/bcoin\<close>) and the command layer below it are missing from the sources at
  hand; only the test that calls it is present. The definitions of this section follow
  the specification's sections 3, 4.1, 4.4, 4.5, 6, 7 and 9: the error taxonomy, the
  decoding of a response (a payload followed by a two-byte status word, \<open>0x9000\<close> for
  success), the session record, the order of the commands of a session, and one
  finalize command per output, in output order, each answered by a boolean, the whole
  session aborting at the first error.
\<close>

datatype ProtocolError =
    Unsupported | Transport | Timeout | Framing | InvalidInput | MissingKey | OutOfOrder
  | DeviceRejected nat

text \<open>
  Modelled from the spec: the payload of a response frame, which is the frame without
  its two-byte status-word trailer; the Frame Codec is missing from the sources.
\<close>

definition payloadOf :: "Buffer \<Rightarrow> Buffer" where
  "payloadOf rawFrame = take (length rawFrame - 2) rawFrame"

text \<open>Modelled from the spec: \<^verbatim>\<open>decode\<close> of the Frame Codec, which is missing from the sources.\<close>

definition decode :: "Buffer \<Rightarrow> ProtocolError + Buffer" where
  "decode rawFrame =
     (if length rawFrame < 2 then Inl Framing
      else let n = length rawFrame - 2;
               statusWord = 256 * unat (rawFrame ! n) + unat (rawFrame ! Suc n)
           in if statusWord = 0x9000 then Inr (payloadOf rawFrame)
              else Inl (DeviceRejected statusWord))"

text \<open>
  Modelled from the spec: the sequence of a session (section 9), which is missing from
  the sources: \<open>TrustedInput \<rightarrow> HashStart \<rightarrow> InputHash* \<rightarrow> Finalize* \<rightarrow> Sign\<close>. The phase
  of a session is the kind of the last command it issued; a session that has issued
  none is in the phase \<open>TrustedInput\<close>. A finalize command may follow the hash-start,
  an input continuation or another finalize command.
\<close>

datatype Phase = TrustedInput | HashStart | InputHash | Finalize | Sign

fun finalizeAllowed :: "Phase \<Rightarrow> bool" where
  "finalizeAllowed HashStart = True"
| "finalizeAllowed InputHash = True"
| "finalizeAllowed Finalize = True"
| "finalizeAllowed TrustedInput = False"
| "finalizeAllowed Sign = False"

text \<open>
  Modelled from the spec: the \<^verbatim>\<open>Session\<close> of the data model, which is missing from the
  sources, with the phase that the Session Engine enforces.
\<close>

record Session =
  phase :: Phase
  sent :: "Buffer list"
  received :: "Buffer list"
  approvals :: "bool list"

definition newSession :: Session where
  "newSession = \<lparr> phase = TrustedInput, sent = [], received = [], approvals = [] \<rparr>"

text \<open>
  Modelled from the spec: the loop of the Session Engine over the outputs, which is
  missing from the sources. Each finalize command is checked against the phase (out of
  order, nothing is sent and the error is \<open>OutOfOrder\<close>), exchanged with the device,
  its response decoded and its flag appended; the first error ends the session. What
  the specification leaves open is a parameter: the frame of the finalize command for
  one output (\<open>finalizeFrame\<close>), the transport (\<open>exchange\<close>, on a device state \<open>'d\<close>)
  and the reading of the approval flag from a response payload (\<open>approvalFlag\<close>).
\<close>

fun finalizeOutputs ::
  "(Output \<Rightarrow> Buffer) \<Rightarrow> (Buffer \<Rightarrow> 'd \<Rightarrow> (ProtocolError + Buffer) \<times> 'd) \<Rightarrow> (Buffer \<Rightarrow> bool) \<Rightarrow>
   Output list \<Rightarrow> Session \<Rightarrow> 'd \<Rightarrow> (ProtocolError + Session) \<times> 'd" where
  "finalizeOutputs finalizeFrame exchange approvalFlag [] session d = (Inr session, d)"
| "finalizeOutputs finalizeFrame exchange approvalFlag (out # outs) session d =
     (if \<not> finalizeAllowed (phase session) then (Inl OutOfOrder, d)
      else
        let frame = finalizeFrame out in
        case exchange frame d of
          (Inl e, d') \<Rightarrow> (Inl e, d')
        | (Inr response, d') \<Rightarrow>
            (case decode response of
               Inl e \<Rightarrow> (Inl e, d')
             | Inr payload \<Rightarrow>
                 finalizeOutputs finalizeFrame exchange approvalFlag outs
                   (session\<lparr> phase := Finalize,
                             sent := sent session @ [frame],
                             received := received session @ [response],
                             approvals := approvals session @ [approvalFlag payload] \<rparr>) d'))"

text \<open>
  Modelled from the spec: \<^verbatim>\<open>hashOutputFinalize(tx)\<close>, which is missing from the sources:
  the finalize commands of all outputs of the transaction, issued in the session in
  progress, and the flags the session has accumulated as the result. The session in
  progress is an argument: the specification does not say how the caller of
  \<^verbatim>\<open>hashOutputFinalize\<close> comes by it.
\<close>

definition hashOutputFinalize ::
  "(Output \<Rightarrow> Buffer) \<Rightarrow> (Buffer \<Rightarrow> 'd \<Rightarrow> (ProtocolError + Buffer) \<times> 'd) \<Rightarrow> (Buffer \<Rightarrow> bool) \<Rightarrow>
   TX \<Rightarrow> Session \<Rightarrow> 'd \<Rightarrow> (ProtocolError + bool list) \<times> 'd" where
  "hashOutputFinalize finalizeFrame exchange approvalFlag t session d =
     (case finalizeOutputs finalizeFrame exchange approvalFlag (outputs t) session d of
        (Inl e, d') \<Rightarrow> (Inl e, d')
      | (Inr session', d') \<Rightarrow> (Inr (approvals session'), d'))"

section \<open>Sample collaborators and inputs\<close>

text \<open>
  Concrete stand-ins for the collaborators, on which the examples below run the code:
  a path parser and a transaction decoder that reject everything (the examples pass
  arrays and transactions, so neither is called), a coin that records the output and the
  height it was built from, a key ring that records its key and network, a probe that
  counts its calls, and a device that echoes each frame with the success status word.
  Like bcoin's \<^verbatim>\<open>KeyRing.fromPublic\<close>, the sample key ring rejects a buffer that is
  not the encoding of a curve point; of that check it models the form of the encoding
  (33 bytes led by \<open>02\<close> or \<open>03\<close>, or 65 bytes led by \<open>04\<close>, \<open>06\<close> or \<open>07\<close>).
  The sample public key is the compressed encoding of the generator of secp256k1, a
  valid public key.
\<close>

definition noParsePath :: "string \<Rightarrow> bool \<Rightarrow> error + jsval" where
  "noParsePath s hard = Inl (AssertionError ''unparsable path'')"

definition noFromRaw :: "Buffer \<Rightarrow> error + TX" where
  "noFromRaw b = Inl (AssertionError ''undecodable transaction'')"

definition exampleTX :: TX where
  "exampleTX = \<lparr> outputs = [\<lparr> out_script = Script [0x51], out_value = 5000 \<rparr>] \<rparr>"

definition exampleKey :: Buffer where
  "exampleKey =
     [0x02, 0x79, 0xBE, 0x66, 0x7E, 0xF9, 0xDC, 0xBB, 0xAC, 0x55, 0xA0, 0x62, 0x95, 0xCE, 0x87,
      0x0B, 0x07, 0x02, 0x9B, 0xFC, 0xDB, 0x2D, 0xCE, 0x28, 0xD9, 0x59, 0xF2, 0x81, 0x5B, 0x16,
      0xF8, 0x17, 0x98]"

definition exampleOptions :: Options where
  "exampleOptions = noOptions
     (''path'' := JArray [JNum 0x8000002C, JNum 0x80000000, JNum 0x80000000, JNum 0, JNum 0],
      ''tx'' := JTX exampleTX,
      ''index'' := JNum 0,
      ''redeem'' := JScript (Script [0x52, 0xAE]),
      ''publicKey'' := JBuffer exampleKey)"

definition exampleInput :: "(Buffer \<times> string) LedgerTXInput" where
  "exampleInput =
     \<lparr> path = [JNum 0x8000002C, JNum 0x80000000, JNum 0x80000000, JNum 0, JNum 0],
       tx = Some exampleTX, index = 0, redeem = Some (Script [0x52, 0xAE]),
       type = JNum 1, publicKey = Some exampleKey,
       cache_ring = None, cache_coin = None, cache_key = [], cache_prev = None \<rparr>"

definition exampleCoin_fromTX :: "TX option \<Rightarrow> nat \<Rightarrow> jsval \<Rightarrow> error + Output \<times> jsval" where
  "exampleCoin_fromTX t i height =
     (case t of
        None \<Rightarrow> Inl (TypeError ''Cannot read properties of null'')
      | Some t \<Rightarrow> if i < length (outputs t) then Inr (outputs t ! i, height)
                 else Inl (AssertionError ''index out of range''))"

definition exampleKeyRing_fromPublic :: "Buffer \<Rightarrow> string \<Rightarrow> error + (Buffer \<times> string) KeyRing" where
  "exampleKeyRing_fromPublic key network =
     (if (length key = 33 \<and> (take 1 key = [0x02] \<or> take 1 key = [0x03])) \<or>
         (length key = 65 \<and> (take 1 key = [0x04] \<or> take 1 key = [0x06] \<or> take 1 key = [0x07]))
      then Inr \<lparr> ring_body = (key, network), ring_script = None \<rparr>
      else Inl (AssertionError ''Not a valid public key.''))"

definition countingProbe :: "bool \<Rightarrow> nat probe" where
  "countingProbe supported calls = (Inr supported, Suc calls)"

definition exampleFinalizeFrame :: "Output \<Rightarrow> Buffer" where
  "exampleFinalizeFrame out = raw (out_script out)"

definition echoExchange :: "Buffer \<Rightarrow> nat \<Rightarrow> (ProtocolError + Buffer) \<times> nat" where
  "echoExchange frame exchanges = (Inr (frame @ [0x90, 0x00]), Suc exchanges)"

definition exampleApprovalFlag :: "Buffer \<Rightarrow> bool" where
  "exampleApprovalFlag payload = (payload = [0x01])"

definition twoOutputTX :: TX where
  "twoOutputTX = \<lparr> outputs = [\<lparr> out_script = Script [0x00], out_value = 1000 \<rparr>,
                               \<lparr> out_script = Script [0x01], out_value = 2000 \<rparr>] \<rparr>"


section \<open>Properties of wrapAPDU\<close>

lemma wrapAPDU_loop_length:
  "length (wrapAPDU_loop apdu key i result) = length result"
proof (induction apdu key i result rule: wrapAPDU_loop.induct)
  case (1 apdu key i result)
  show ?case
  proof (cases "i < length apdu")
    case True
    with "1" show ?thesis by (simp add: wrapAPDU_loop.simps [of apdu key i result])
  next
    case False
    then show ?thesis by (simp add: wrapAPDU_loop.simps [of apdu key i result])
  qed
qed

text \<open>
  The loop invariant: bytes below the counter are final, bytes from the counter on
  are still to be written.
\<close>

lemma wrapAPDU_loop_nth:
  "length result = length apdu \<Longrightarrow> j < length apdu \<Longrightarrow>
   wrapAPDU_loop apdu key i result ! j =
     (if i \<le> j then (apdu ! j) XOR keyByte key j else result ! j)"
proof (induction apdu key i result rule: wrapAPDU_loop.induct)
  case (1 apdu key i result)
  show ?case
  proof (cases "i < length apdu")
    case True
    have "wrapAPDU_loop apdu key i result ! j =
          wrapAPDU_loop apdu key (Suc i) (result[i := (apdu ! i) XOR keyByte key i]) ! j"
      using True by (simp add: wrapAPDU_loop.simps [of apdu key i result])
    also have "\<dots> = (if Suc i \<le> j then (apdu ! j) XOR keyByte key j
                      else (result[i := (apdu ! i) XOR keyByte key i]) ! j)"
      using "1.IH" [OF True] "1.prems" by simp
    also have "\<dots> = (if i \<le> j then (apdu ! j) XOR keyByte key j else result ! j)"
      using True "1.prems" by (cases "i = j") auto
    finally show ?thesis .
  next
    case False
    with "1.prems" show ?thesis by (simp add: wrapAPDU_loop.simps [of apdu key i result])
  qed
qed

lemma wrapAPDU_length: "length (wrapAPDU apdu key) = length apdu"
  by (simp add: wrapAPDU_def wrapAPDU_loop_length)

lemma wrapAPDU_nth:
  "i < length apdu \<Longrightarrow> wrapAPDU apdu key ! i = (apdu ! i) XOR keyByte key i"
  by (simp add: wrapAPDU_def wrapAPDU_loop_nth)

text \<open>
  C6. The obfuscation that the exchange path applies to the outgoing APDU is the
  byte-wise exclusive-or of the payload with the scramble key repeated cyclically: for
  every apdu and every non-empty key, the result of \<^verbatim>\<open>wrapAPDU\<close> has the length of the
  apdu, and its byte at every index \<open>i\<close> is \<open>apdu[i] XOR key[i mod key.length]\<close>.
\<close>

theorem wrapAPDU_xor_cyclic:
  "key \<noteq> [] \<Longrightarrow>
   length (wrapAPDU apdu key) = length apdu \<and>
   (\<forall>i < length apdu. wrapAPDU apdu key ! i = (apdu ! i) XOR (key ! (i mod length key)))"
  by (simp add: wrapAPDU_length wrapAPDU_nth keyByte_def)

theorem wrapAPDU_xor_cyclic_witness:
  "[0x62, 0x74 :: byte] \<noteq> [] \<and>
   length (wrapAPDU [0xE0, 0x40, 0x01] [0x62, 0x74]) = 3 \<and>
   wrapAPDU [0xE0, 0x40, 0x01] [0x62, 0x74] ! 0 = 0x82 \<and>
   wrapAPDU [0xE0, 0x40, 0x01] [0x62, 0x74] ! 1 = 0x34 \<and>
   wrapAPDU [0xE0, 0x40, 0x01] [0x62, 0x74] ! 2 = 0x63"
  using wrapAPDU_xor_cyclic [of "[0x62, 0x74]" "[0xE0, 0x40, 0x01]"]
  by (simp add: All_less_Suc2 numeral_3_eq_3 numeral_2_eq_2)

text \<open>
  C9. \<^verbatim>\<open>wrapAPDU\<close> is an involution: wrapping twice with the same key gives back the
  apdu, byte for byte. (For the empty key, which the claim leaves out, \<^verbatim>\<open>wrapAPDU\<close>
  returns a copy of the apdu, so the equation holds there as well.)
\<close>

theorem wrapAPDU_involution:
  "wrapAPDU (wrapAPDU apdu key) key = apdu"
  by (rule nth_equalityI) (simp_all add: wrapAPDU_length wrapAPDU_nth xor.assoc)

section \<open>Properties of the support probe\<close>

text \<open>
  C7. \<^verbatim>\<open>enforceSupport()\<close> fails with the \<open>Unsupported\<close> error (the \<^verbatim>\<open>LedgerError\<close>
  \<^verbatim>\<open>'U2F is not supported'\<close>) exactly when the probe \<^verbatim>\<open>isSupported()\<close> answers
  negatively, and \<^verbatim>\<open>open()\<close> runs the probe again: on an unsupported transport it
  fails with that error, otherwise it succeeds, and in both cases its only effect is
  that of the one probe. (A probe that rejects instead of answering passes its own
  exception on.)
\<close>

theorem enforceSupport_open_probe:
  "(U2F_isSupported w = (Inr supported, w') \<longrightarrow>
      U2FDevice_isSupported U2F_isSupported w = (Inr supported, w') \<and>
      (fst (U2FDevice_enforceSupport U2F_isSupported w) = Inl (LedgerError ''U2F is not supported'')
         \<longleftrightarrow> \<not> supported) \<and>
      (fst (U2FDevice_enforceSupport U2F_isSupported w) = Inr () \<longleftrightarrow> supported) \<and>
      snd (U2FDevice_enforceSupport U2F_isSupported w) = w' \<and>
      U2FDevice_open U2F_isSupported w =
        (if supported then (Inr (), w') else (Inl (LedgerError ''U2F is not supported''), w'))) \<and>
   (U2F_isSupported w = (Inl e, w') \<longrightarrow>
      U2FDevice_enforceSupport U2F_isSupported w = (Inl e, w') \<and>
      U2FDevice_open U2F_isSupported w = (Inl e, w'))"
  by (simp add: U2FDevice_open_def U2FDevice_enforceSupport_def U2FDevice_isSupported_def)

theorem enforceSupport_open_probe_witness:
  "countingProbe False 0 = (Inr False, 1) \<and>
   fst (U2FDevice_enforceSupport (countingProbe False) 0) = Inl (LedgerError ''U2F is not supported'') \<and>
   U2FDevice_open (countingProbe False) 0 = (Inl (LedgerError ''U2F is not supported''), 1) \<and>
   countingProbe True 0 = (Inr True, 1) \<and>
   U2FDevice_open (countingProbe True) 0 = (Inr (), 1)"
  using enforceSupport_open_probe [of "countingProbe False" 0 False 1]
        enforceSupport_open_probe [of "countingProbe True" 0 True 1]
  by (simp add: countingProbe_def)

section \<open>Properties of the construction of a LedgerTXInput\<close>

lemma andThen_simps:
  "andThen (Inl e) f = Inl e"
  "andThen (Inr x) f = f x"
  "andThen (assert c m) g = (if c then g () else Inl (AssertionError m))"
  by (simp_all add: andThen_def assert_def)

lemma fromOptions_None:
  "fromOptions P F this None = Inl (AssertionError ''SignInput data is required.'')"
  by (simp add: fromOptions_def andThen_simps)

text \<open>The chain of assertions of \<^verbatim>\<open>fromOptions\<close>, as one nested conditional.\<close>

lemma fromOptions_Some:
  "fromOptions P F this (Some opts) =
    (if \<not> truthy (opts ''path'') then Inl (AssertionError ''Path is required.'')
     else case resolvePath P (opts ''path'') of
       Inl e \<Rightarrow> Inl e
     | Inr p \<Rightarrow>
        if \<not> isArray p then Inl (AssertionError ''Path must be Array or string'')
        else if \<not> truthy (opts ''tx'') then Inl (AssertionError ''Tx is required.'')
        else case resolveTx F (opts ''tx'') of
          Inl e \<Rightarrow> Inl e
        | Inr t \<Rightarrow>
           if \<not> isTX t then Inl (AssertionError ''Cannot use non-transaction tx.'')
           else if \<not> isNumber (opts ''index'') then Inl (AssertionError ''Output index is required.'')
           else if \<not> isU32 (opts ''index'') then Inl (AssertionError ''Output index must be a uint32.'')
           else if opts ''type'' = JNum hashType_ALL
             then Inl (AssertionError ''Ledger only supports SIGHASH_ALL'')
           else if notNullish (opts ''redeem'') \<and> \<not> isScript (opts ''redeem'')
             then Inl (AssertionError ''Cannot use non-script redeem.'')
           else if notNullish (opts ''publicKey'') \<and> \<not> isBuffer (opts ''publicKey'')
             then Inl (AssertionError ''Cannot set non-buffer public key'')
           else Inr (this\<lparr> path := itemsOf p, tx := txOf t, index := u32Of (opts ''index''),
                   type := (if notNullish (opts ''type'') then opts ''type'' else type this),
                   redeem := (if notNullish (opts ''redeem'') then scriptOf (opts ''redeem'')
                              else redeem this),
                   publicKey := (if notNullish (opts ''publicKey'')
                                 then Some (bytesOf (opts ''publicKey'')) else publicKey this) \<rparr>))"
proof (cases "resolvePath P (opts ''path'')")
  case (Inl e)
  then show ?thesis by (simp add: fromOptions_def andThen_simps)
next
  case p: (Inr p)
  show ?thesis
  proof (cases "resolveTx F (opts ''tx'')")
    case (Inl e)
    with p show ?thesis by (simp add: fromOptions_def andThen_simps)
  next
    case (Inr t)
    with p show ?thesis
      by (simp add: fromOptions_def andThen_simps)
  qed
qed

text \<open>With options given, the constructor and the static method build the same input.\<close>

lemma construct_Some:
  "construct P F (Some opts) = fromOptions_static P F (Some opts)"
  by (simp add: construct_def fromOptions_static_def)

lemma isU32_iff: "isU32 v \<longleftrightarrow> (\<exists>i. v = JNum i \<and> 0 \<le> i \<and> i < 2 ^ 32)"
proof (cases v)
  case (JNum i)
  have "i mod 2 ^ 32 = i \<longleftrightarrow> 0 \<le> i \<and> i < 2 ^ 32"
    by (metis mod_pos_pos_trivial pos_mod_bound pos_mod_sign zero_less_numeral zero_less_power)
  with JNum show ?thesis by simp
qed simp_all

lemma isBuffer_iff: "isBuffer v \<longleftrightarrow> (\<exists>b. v = JBuffer b)"
  by (cases v) simp_all

lemma isScript_iff: "isScript v \<longleftrightarrow> (\<exists>s. v = JScript s)"
  by (cases v) simp_all

lemma fromOptions_static_Inr_iff:
  "(fromOptions_static P F options = Inr (s :: 'r LedgerTXInput)) \<longleftrightarrow>
     (\<exists>opts p t. options = Some opts \<and>
        truthy (opts ''path'') \<and> resolvePath P (opts ''path'') = Inr p \<and> isArray p \<and>
        truthy (opts ''tx'') \<and> resolveTx F (opts ''tx'') = Inr t \<and> isTX t \<and>
        isNumber (opts ''index'') \<and> isU32 (opts ''index'') \<and>
        opts ''type'' \<noteq> JNum hashType_ALL \<and>
        (notNullish (opts ''redeem'') \<longrightarrow> isScript (opts ''redeem'')) \<and>
        (notNullish (opts ''publicKey'') \<longrightarrow> isBuffer (opts ''publicKey'')) \<and>
        s = newInput\<lparr> path := itemsOf p, tx := txOf t, index := u32Of (opts ''index''),
              type := (if notNullish (opts ''type'') then opts ''type'' else JNum hashType_ALL),
              redeem := (if notNullish (opts ''redeem'') then scriptOf (opts ''redeem'') else None),
              publicKey := (if notNullish (opts ''publicKey'')
                            then Some (bytesOf (opts ''publicKey'')) else None) \<rparr>)"
proof (cases options)
  case None
  then show ?thesis by (simp add: fromOptions_static_def fromOptions_None)
next
  case (Some opts)
  have new: "type (newInput :: 'r LedgerTXInput) = JNum hashType_ALL"
    "redeem (newInput :: 'r LedgerTXInput) = None" "publicKey (newInput :: 'r LedgerTXInput) = None"
    by (simp_all add: newInput_def)
  show ?thesis
    unfolding Some fromOptions_static_def fromOptions_Some new
    by (cases "resolvePath P (opts ''path'')"; cases "resolveTx F (opts ''tx'')") auto
qed

lemma fromOptions_static_rejections:
  fixes r :: "error + 'r LedgerTXInput"
  assumes r: "r = fromOptions_static P F (Some opts)"
  shows
   "(\<not> truthy (opts ''path'') \<longrightarrow> r = Inl (AssertionError ''Path is required.'')) \<and>
    (truthy (opts ''path'') \<longrightarrow>
      (\<forall>e. resolvePath P (opts ''path'') = Inl e \<longrightarrow> r = Inl e) \<and>
      (\<forall>p. resolvePath P (opts ''path'') = Inr p \<longrightarrow>
        (\<not> isArray p \<longrightarrow> r = Inl (AssertionError ''Path must be Array or string'')) \<and>
        (isArray p \<and> \<not> truthy (opts ''tx'') \<longrightarrow> r = Inl (AssertionError ''Tx is required.'')) \<and>
        (isArray p \<and> truthy (opts ''tx'') \<longrightarrow>
          (\<forall>e. resolveTx F (opts ''tx'') = Inl e \<longrightarrow> r = Inl e) \<and>
          (\<forall>t. resolveTx F (opts ''tx'') = Inr t \<longrightarrow>
            (\<not> isTX t \<longrightarrow> r = Inl (AssertionError ''Cannot use non-transaction tx.'')) \<and>
            (isTX t \<and> \<not> isNumber (opts ''index'') \<longrightarrow>
               r = Inl (AssertionError ''Output index is required.'')) \<and>
            (isTX t \<and> isNumber (opts ''index'') \<and> \<not> isU32 (opts ''index'') \<longrightarrow>
               r = Inl (AssertionError ''Output index must be a uint32.'')) \<and>
            (isTX t \<and> isU32 (opts ''index'') \<and> opts ''type'' = JNum hashType_ALL \<longrightarrow>
               r = Inl (AssertionError ''Ledger only supports SIGHASH_ALL'')) \<and>
            (isTX t \<and> isU32 (opts ''index'') \<and> opts ''type'' \<noteq> JNum hashType_ALL \<and>
             notNullish (opts ''redeem'') \<and> \<not> isScript (opts ''redeem'') \<longrightarrow>
               r = Inl (AssertionError ''Cannot use non-script redeem.'')) \<and>
            (isTX t \<and> isU32 (opts ''index'') \<and> opts ''type'' \<noteq> JNum hashType_ALL \<and>
             (notNullish (opts ''redeem'') \<longrightarrow> isScript (opts ''redeem'')) \<and>
             notNullish (opts ''publicKey'') \<and> \<not> isBuffer (opts ''publicKey'') \<longrightarrow>
               r = Inl (AssertionError ''Cannot set non-buffer public key''))))))"
proof -
  have u32: "isU32 v \<Longrightarrow> isNumber v" for v
    by (cases v) simp_all
  show ?thesis
    unfolding r fromOptions_static_def fromOptions_Some
    by (cases "resolvePath P (opts ''path'')"; cases "resolveTx F (opts ''tx'')")
       (auto dest: u32)
qed

lemma fromOptions_static_fields:
  assumes "fromOptions_static P F (Some opts) = Inr (this :: 'r LedgerTXInput)"
  shows "publicKey this = (if notNullish (opts ''publicKey'')
                           then Some (bytesOf (opts ''publicKey'')) else None)"
    and "redeem this = (if notNullish (opts ''redeem'') then scriptOf (opts ''redeem'') else None)"
    and "cache_ring this = None" and "cache_coin this = None"
    and "cache_key this = []" and "cache_prev this = None"
    and "notNullish (opts ''publicKey'') \<Longrightarrow> isBuffer (opts ''publicKey'')"
    and "notNullish (opts ''redeem'') \<Longrightarrow> isScript (opts ''redeem'')"
  using assms unfolding fromOptions_static_Inr_iff
  by (auto simp: newInput_def)

lemma exampleOptions_constructs:
  "fromOptions_static noParsePath noFromRaw (Some exampleOptions) = Inr exampleInput"
  by (simp add: fromOptions_static_def fromOptions_Some resolvePath_def resolveTx_def
        exampleOptions_def exampleInput_def noOptions_def newInput_def hashType_ALL_def)

text \<open>
  C1. Constructing a signing input with the device's implicit default sighash type,
  \<^verbatim>\<open>SIGHASH_ALL\<close>, given explicitly as \<^verbatim>\<open>options.type\<close> is rejected, whatever the
  other options are. The exception is an assertion error (the specification's
  \<open>InvalidInput\<close>) of \<^verbatim>\<open>fromOptions\<close>, unless \<^verbatim>\<open>util.parsePath\<close> or \<^verbatim>\<open>TX.fromRaw\<close>
  threw first; when the path, the transaction and the index pass their checks, it is
  the assertion on the type itself.
\<close>

theorem fromOptions_rejects_SIGHASH_ALL:
  assumes "opts ''type'' = JNum hashType_ALL"
  shows "(\<exists>e. (fromOptions_static P F (Some opts) :: error + 'r LedgerTXInput) = Inl e \<and>
            ((\<exists>msg. e = AssertionError msg) \<or>
             resolvePath P (opts ''path'') = Inl e \<or> resolveTx F (opts ''tx'') = Inl e)) \<and>
         (\<forall>p t. truthy (opts ''path'') \<and> resolvePath P (opts ''path'') = Inr p \<and> isArray p \<and>
                truthy (opts ''tx'') \<and> resolveTx F (opts ''tx'') = Inr t \<and> isTX t \<and>
                isNumber (opts ''index'') \<and> isU32 (opts ''index'') \<longrightarrow>
            (fromOptions_static P F (Some opts) :: error + 'r LedgerTXInput) =
              Inl (AssertionError ''Ledger only supports SIGHASH_ALL''))"
  using assms
  by (auto simp: fromOptions_static_def fromOptions_Some split: sum.splits)

theorem fromOptions_rejects_SIGHASH_ALL_witness:
  "(exampleOptions(''type'' := JNum 1)) ''type'' = JNum hashType_ALL \<and>
   (fromOptions_static noParsePath noFromRaw (Some (exampleOptions(''type'' := JNum 1)))
      :: error + unit LedgerTXInput) =
     Inl (AssertionError ''Ledger only supports SIGHASH_ALL'')"
  using fromOptions_rejects_SIGHASH_ALL
          [where 'r = unit, of "exampleOptions(''type'' := JNum 1)" noParsePath noFromRaw]
  by (simp add: hashType_ALL_def resolvePath_def resolveTx_def exampleOptions_def)

text \<open>
  C2, as stated, fails. The claim says that construction checks every invariant of the
  data model, in particular that the derivation path is non-empty and that the output
  index is within the output count of the source transaction. Here the options hold the
  empty path \<^verbatim>\<open>[]\<close> (an empty array is truthy) and the index 7 for a transaction with a
  single output, and \<^verbatim>\<open>fromOptions\<close> returns the input instead of failing.
\<close>

theorem fromOptions_accepts_unchecked_invariants:
  "(fromOptions_static noParsePath noFromRaw
      (Some (noOptions(''path'' := JArray [], ''tx'' := JTX exampleTX, ''index'' := JNum 7)))
      :: error + unit LedgerTXInput) =
     Inr (newInput\<lparr> path := [], tx := Some exampleTX, index := 7 \<rparr>) \<and>
   path (newInput\<lparr> path := [], tx := Some exampleTX, index := 7 \<rparr> :: unit LedgerTXInput) = [] \<and>
   length (outputs exampleTX) = 1 \<and>
   index (newInput\<lparr> path := [], tx := Some exampleTX, index := 7 \<rparr> :: unit LedgerTXInput) = 7"
  by (simp add: fromOptions_static_def fromOptions_Some resolvePath_def resolveTx_def
        noOptions_def exampleTX_def newInput_def)

text \<open>
  C2, amended. Construction validates eagerly what \<^verbatim>\<open>fromOptions\<close> asserts, and nothing
  else: that options are given; that \<^verbatim>\<open>path\<close> is present and is an array, or a string
  that \<^verbatim>\<open>util.parsePath\<close> turns into one; that \<^verbatim>\<open>tx\<close> is present and is a transaction,
  or a buffer that \<^verbatim>\<open>TX.fromRaw\<close> decodes; that \<^verbatim>\<open>index\<close> is a number and a uint32; that
  \<^verbatim>\<open>type\<close>, if given, is not \<^verbatim>\<open>SIGHASH_ALL\<close>; that \<^verbatim>\<open>redeem\<close>, if given, is a script and
  \<^verbatim>\<open>publicKey\<close>, if given, a buffer. The input is constructed exactly when all of these
  hold, with its fields taken from the options; otherwise construction fails with the
  assertion error (\<open>InvalidInput\<close>) whose message names the first offending field, or
  with the exception of \<^verbatim>\<open>util.parsePath\<close> or \<^verbatim>\<open>TX.fromRaw\<close>. Neither the emptiness of
  the path nor the range of the index within the transaction's outputs is checked.
\<close>

theorem fromOptions_validation:
  fixes r :: "error + 'r LedgerTXInput"
  assumes "r = fromOptions_static P F options"
  shows
   "(\<forall>s. r = Inr s \<longleftrightarrow>
      (\<exists>opts p t. options = Some opts \<and>
        truthy (opts ''path'') \<and> resolvePath P (opts ''path'') = Inr p \<and> isArray p \<and>
        truthy (opts ''tx'') \<and> resolveTx F (opts ''tx'') = Inr t \<and> isTX t \<and>
        isNumber (opts ''index'') \<and> isU32 (opts ''index'') \<and>
        opts ''type'' \<noteq> JNum hashType_ALL \<and>
        (notNullish (opts ''redeem'') \<longrightarrow> isScript (opts ''redeem'')) \<and>
        (notNullish (opts ''publicKey'') \<longrightarrow> isBuffer (opts ''publicKey'')) \<and>
        s = newInput\<lparr> path := itemsOf p, tx := txOf t, index := u32Of (opts ''index''),
              type := (if notNullish (opts ''type'') then opts ''type'' else JNum hashType_ALL),
              redeem := (if notNullish (opts ''redeem'') then scriptOf (opts ''redeem'') else None),
              publicKey := (if notNullish (opts ''publicKey'')
                            then Some (bytesOf (opts ''publicKey'')) else None) \<rparr>)) \<and>
    (options = None \<longrightarrow> r = Inl (AssertionError ''SignInput data is required.'')) \<and>
    (\<forall>opts. options = Some opts \<longrightarrow>
      (\<not> truthy (opts ''path'') \<longrightarrow> r = Inl (AssertionError ''Path is required.'')) \<and>
      (truthy (opts ''path'') \<longrightarrow>
        (\<forall>e. resolvePath P (opts ''path'') = Inl e \<longrightarrow> r = Inl e) \<and>
        (\<forall>p. resolvePath P (opts ''path'') = Inr p \<longrightarrow>
          (\<not> isArray p \<longrightarrow> r = Inl (AssertionError ''Path must be Array or string'')) \<and>
          (isArray p \<and> \<not> truthy (opts ''tx'') \<longrightarrow> r = Inl (AssertionError ''Tx is required.'')) \<and>
          (isArray p \<and> truthy (opts ''tx'') \<longrightarrow>
            (\<forall>e. resolveTx F (opts ''tx'') = Inl e \<longrightarrow> r = Inl e) \<and>
            (\<forall>t. resolveTx F (opts ''tx'') = Inr t \<longrightarrow>
              (\<not> isTX t \<longrightarrow> r = Inl (AssertionError ''Cannot use non-transaction tx.'')) \<and>
              (isTX t \<and> \<not> isNumber (opts ''index'') \<longrightarrow>
                 r = Inl (AssertionError ''Output index is required.'')) \<and>
              (isTX t \<and> isNumber (opts ''index'') \<and> \<not> isU32 (opts ''index'') \<longrightarrow>
                 r = Inl (AssertionError ''Output index must be a uint32.'')) \<and>
              (isTX t \<and> isU32 (opts ''index'') \<and> opts ''type'' = JNum hashType_ALL \<longrightarrow>
                 r = Inl (AssertionError ''Ledger only supports SIGHASH_ALL'')) \<and>
              (isTX t \<and> isU32 (opts ''index'') \<and> opts ''type'' \<noteq> JNum hashType_ALL \<and>
               notNullish (opts ''redeem'') \<and> \<not> isScript (opts ''redeem'') \<longrightarrow>
                 r = Inl (AssertionError ''Cannot use non-script redeem.'')) \<and>
              (isTX t \<and> isU32 (opts ''index'') \<and> opts ''type'' \<noteq> JNum hashType_ALL \<and>
               (notNullish (opts ''redeem'') \<longrightarrow> isScript (opts ''redeem'')) \<and>
               notNullish (opts ''publicKey'') \<and> \<not> isBuffer (opts ''publicKey'') \<longrightarrow>
                 r = Inl (AssertionError ''Cannot set non-buffer public key'')))))))"
    (is "?A \<and> ?B \<and> ?C")
proof -
  have A: ?A
    unfolding assms by (intro allI, rule fromOptions_static_Inr_iff)
  have B: ?B
    by (simp add: assms fromOptions_static_def fromOptions_None)
  have C: ?C
    unfolding assms
    by (intro allI impI, hypsubst, rule fromOptions_static_rejections [OF refl])
  show ?thesis
    by (rule conjI [OF A conjI [OF B C]])
qed

theorem fromOptions_validation_witness:
  "fromOptions_static noParsePath noFromRaw (Some exampleOptions) = Inr exampleInput \<and>
   (fromOptions_static noParsePath noFromRaw (Some (exampleOptions(''index'' := JNum (- 1))))
      :: error + (Buffer \<times> string) LedgerTXInput) =
     Inl (AssertionError ''Output index must be a uint32.'') \<and>
   (fromOptions_static noParsePath noFromRaw None :: error + (Buffer \<times> string) LedgerTXInput) =
     Inl (AssertionError ''SignInput data is required.'')"
  using fromOptions_validation
          [OF refl, where 'r = "Buffer \<times> string", of noParsePath noFromRaw "Some exampleOptions"]
        fromOptions_validation
          [OF refl, where 'r = "Buffer \<times> string", of noParsePath noFromRaw
             "Some (exampleOptions(''index'' := JNum (- 1)))"]
        fromOptions_validation
          [OF refl, where 'r = "Buffer \<times> string", of noParsePath noFromRaw None]
        exampleOptions_constructs
  by (simp add: resolvePath_def resolveTx_def exampleOptions_def)

section \<open>Properties of the caches\<close>

lemma getCoin_hit:
  "cache_coin this = Some ref \<Longrightarrow> getCoin C h (store, this) = Inr (ref, store, this)"
  by (simp add: getCoin_def)

lemma getCoin_miss:
  "cache_coin this = None \<Longrightarrow>
   getCoin C h (store, this) =
     andThen (C (tx this) (index this) (if h = Undefined then JNum 0 else h)) (\<lambda>coin.
       Inr (length store, store @ [coin], this\<lparr>cache_coin := Some (length store)\<rparr>))"
  by (simp add: getCoin_def)

lemma andThen_eq_Inr: "andThen m f = Inr y \<longleftrightarrow> (\<exists>x. m = Inr x \<and> f x = Inr y)"
  by (cases m) (simp_all add: andThen_simps)

lemma getCoin_result:
  assumes "getCoin C h (store, this) = Inr (ref, store1, this1)"
  shows "cache_coin this1 = Some ref"
    and "cache_coin this = None \<Longrightarrow> ref = length store \<and> ref < length store1 \<and>
           C (tx this) (index this) (if h = Undefined then JNum 0 else h) = Inr (store1 ! ref)"
    and "cache_coin this \<noteq> None \<Longrightarrow> store1 = store \<and> this1 = this"
    and "tx this1 = tx this" "index this1 = index this"
  using assms
  by (cases "cache_coin this"; auto simp: getCoin_def andThen_eq_Inr)+

text \<open>
  C3. For every input whose construction was valid, that is, for which the first
  \<^verbatim>\<open>getCoin()\<close> returns a coin, a second \<^verbatim>\<open>getCoin()\<close> without a \<^verbatim>\<open>refresh()\<close> in
  between returns the identical coin object (the same reference; no coin is built, and
  neither the store of coins nor the input changes). After \<^verbatim>\<open>refresh()\<close> the next
  \<^verbatim>\<open>getCoin()\<close> computes afresh: it calls \<^verbatim>\<open>Coin.fromTX\<close> again and, when that
  succeeds, returns a newly allocated coin, distinct from the cached one. (The premise
  on the cached reference holds in every state the code reaches: a cached coin has been
  allocated.)
\<close>

theorem getCoin_cached_until_refresh:
  assumes "case cache_coin this of None \<Rightarrow> True | Some r \<Rightarrow> r < length store"
      and "getCoin Coin_fromTX ha (store, this) = Inr (ref, store', this')"
  shows "getCoin Coin_fromTX hb (store', this') = Inr (ref, store', this') \<and>
         (\<forall>coin. Coin_fromTX (tx this') (index this') (if hc = Undefined then JNum 0 else hc) = Inr coin
            \<longrightarrow> getCoin Coin_fromTX hc (store', refresh this') =
                  Inr (length store', store' @ [coin],
                       (refresh this')\<lparr>cache_coin := Some (length store')\<rparr>) \<and>
                length store' \<noteq> ref) \<and>
         (\<forall>e. Coin_fromTX (tx this') (index this') (if hc = Undefined then JNum 0 else hc) = Inl e
            \<longrightarrow> getCoin Coin_fromTX hc (store', refresh this') = Inl e)"
proof -
  have c1: "cache_coin this' = Some ref"
    using assms(2) by (rule getCoin_result(1))
  have lt: "ref < length store'"
  proof (cases "cache_coin this")
    case None
    with assms(2) show ?thesis by (simp add: getCoin_result(2))
  next
    case (Some r)
    with assms show ?thesis by (simp add: getCoin_hit)
  qed
  have again: "getCoin Coin_fromTX hb (store', this') = Inr (ref, store', this')"
    using c1 by (rule getCoin_hit)
  have "cache_coin (refresh this') = None" "tx (refresh this') = tx this'"
    "index (refresh this') = index this'"
    by (simp_all add: refresh_def)
  then have fresh: "getCoin Coin_fromTX hc (store', refresh this') =
           andThen (Coin_fromTX (tx this') (index this') (if hc = Undefined then JNum 0 else hc))
             (\<lambda>coin. Inr (length store', store' @ [coin],
                          (refresh this')\<lparr>cache_coin := Some (length store')\<rparr>))"
    by (simp add: getCoin_miss)
  from lt again show ?thesis
    by (simp add: fresh andThen_simps)
qed

theorem getCoin_cached_until_refresh_witness:
  "getCoin exampleCoin_fromTX Undefined ([], exampleInput) =
     Inr (0, [(\<lparr> out_script = Script [0x51], out_value = 5000 \<rparr>, JNum 0)],
          exampleInput\<lparr>cache_coin := Some 0\<rparr>) \<and>
   getCoin exampleCoin_fromTX Undefined
       ([(\<lparr> out_script = Script [0x51], out_value = 5000 \<rparr>, JNum 0)],
        exampleInput\<lparr>cache_coin := Some 0\<rparr>) =
     Inr (0, [(\<lparr> out_script = Script [0x51], out_value = 5000 \<rparr>, JNum 0)],
          exampleInput\<lparr>cache_coin := Some 0\<rparr>) \<and>
   getCoin exampleCoin_fromTX Undefined
       ([(\<lparr> out_script = Script [0x51], out_value = 5000 \<rparr>, JNum 0)],
        refresh (exampleInput\<lparr>cache_coin := Some 0\<rparr>)) =
     Inr (1, [(\<lparr> out_script = Script [0x51], out_value = 5000 \<rparr>, JNum 0),
              (\<lparr> out_script = Script [0x51], out_value = 5000 \<rparr>, JNum 0)],
          exampleInput\<lparr>cache_coin := Some 1\<rparr>)"
proof -
  have first: "getCoin exampleCoin_fromTX Undefined ([], exampleInput) =
     Inr (0, [(\<lparr> out_script = Script [0x51], out_value = 5000 \<rparr>, JNum 0)],
          exampleInput\<lparr>cache_coin := Some 0\<rparr>)"
    by (simp add: getCoin_def andThen_simps exampleCoin_fromTX_def exampleInput_def exampleTX_def)
  have wf: "case cache_coin exampleInput of None \<Rightarrow> True | Some r \<Rightarrow> r < length []"
    by (simp add: exampleInput_def)
  show ?thesis
    using getCoin_cached_until_refresh [OF wf first, of Undefined Undefined] first
    by (simp add: exampleCoin_fromTX_def exampleInput_def exampleTX_def refresh_def)
qed

text \<open>
  C10. The height argument of \<^verbatim>\<open>getCoin\<close> counts on the first call only. When no coin
  is cached (the input as constructed, or after \<^verbatim>\<open>refresh()\<close>) and \<^verbatim>\<open>Coin.fromTX\<close>
  builds a coin for the height \<open>ha\<close>, then \<^verbatim>\<open>getCoin(ha)\<close> returns that coin, and every
  later \<^verbatim>\<open>getCoin(hb)\<close> without a \<^verbatim>\<open>refresh()\<close> returns the same coin, built with
  \<open>ha\<close>, whatever \<open>hb\<close> is; such a call leaves the state as it was, so this holds for
  any number of later calls.
\<close>

theorem getCoin_height_first_call_only:
  assumes "cache_coin this = None"
      and "Coin_fromTX (tx this) (index this) (if ha = Undefined then JNum 0 else ha) = Inr coin"
  shows "getCoin Coin_fromTX ha (store, this) =
           Inr (length store, store @ [coin], this\<lparr>cache_coin := Some (length store)\<rparr>) \<and>
         (store @ [coin]) ! length store = coin \<and>
         (\<forall>hb. getCoin Coin_fromTX hb (store @ [coin], this\<lparr>cache_coin := Some (length store)\<rparr>) =
            Inr (length store, store @ [coin], this\<lparr>cache_coin := Some (length store)\<rparr>))"
  using assms by (simp add: getCoin_miss getCoin_hit andThen_simps)

theorem getCoin_height_first_call_only_witness:
  "getCoin exampleCoin_fromTX (JNum 100) ([], exampleInput) =
     Inr (0, [(\<lparr> out_script = Script [0x51], out_value = 5000 \<rparr>, JNum 100)],
          exampleInput\<lparr>cache_coin := Some 0\<rparr>) \<and>
   getCoin exampleCoin_fromTX (JNum 200)
       ([(\<lparr> out_script = Script [0x51], out_value = 5000 \<rparr>, JNum 100)],
        exampleInput\<lparr>cache_coin := Some 0\<rparr>) =
     Inr (0, [(\<lparr> out_script = Script [0x51], out_value = 5000 \<rparr>, JNum 100)],
          exampleInput\<lparr>cache_coin := Some 0\<rparr>)"
proof -
  have none: "cache_coin exampleInput = None"
    by (simp add: exampleInput_def)
  have coin: "exampleCoin_fromTX (tx exampleInput) (index exampleInput)
                (if JNum 100 = Undefined then JNum 0 else JNum 100) =
              Inr (\<lparr> out_script = Script [0x51], out_value = 5000 \<rparr>, JNum 100)"
    by (simp add: exampleCoin_fromTX_def exampleInput_def exampleTX_def)
  show ?thesis
    using getCoin_height_first_call_only
            [where this = exampleInput and Coin_fromTX = exampleCoin_fromTX and ha = "JNum 100"
               and store = "[]", OF none coin]
    by simp
qed

lemma exampleKey_accepted:
  "exampleKeyRing_fromPublic exampleKey network =
     Inr \<lparr> ring_body = (exampleKey, network), ring_script = None \<rparr>"
  by (simp add: exampleKeyRing_fromPublic_def exampleKey_def)

text \<open>
  C4, as stated, fails. The claim says that for every input constructed with a public
  key \<^verbatim>\<open>getRing()\<close> returns a key ring. Construction accepts any \<^verbatim>\<open>Buffer\<close> as
  public key, here the empty one, and \<^verbatim>\<open>getRing()\<close> then ends with the exception of
  \<^verbatim>\<open>KeyRing.fromPublic\<close>, which rejects the key.
\<close>

theorem getRing_rejected_public_key:
  "fromOptions_static noParsePath noFromRaw (Some (exampleOptions(''publicKey'' := JBuffer []))) =
     Inr (exampleInput\<lparr>publicKey := Some []\<rparr>) \<and>
   getRing exampleKeyRing_fromPublic ''main'' None (exampleInput\<lparr>publicKey := Some []\<rparr>) =
     Inl (AssertionError ''Not a valid public key.'')"
  by (simp add: fromOptions_static_def fromOptions_Some resolvePath_def resolveTx_def
        exampleOptions_def exampleInput_def noOptions_def newInput_def hashType_ALL_def
        getRing_def andThen_simps exampleKeyRing_fromPublic_def)

text \<open>
  C4, amended. For every input constructed without a public key, \<^verbatim>\<open>getRing()\<close> fails
  with the \<open>MissingKey\<close> error (the \<^verbatim>\<open>LedgerError\<close>
  \<^verbatim>\<open>'Cannot return ring without public key'\<close>). For every input constructed with a
  public key, \<^verbatim>\<open>getRing()\<close> returns a key ring whenever \<^verbatim>\<open>KeyRing.fromPublic\<close>
  accepts the key, namely the ring that \<^verbatim>\<open>KeyRing.fromPublic\<close> builds from it, and
  fails with the exception of \<^verbatim>\<open>KeyRing.fromPublic\<close> when that rejects the key; when
  a redeem script was supplied as well, the script of the returned ring is that redeem
  script, and otherwise the ring is returned as built.
\<close>

theorem getRing_constructed:
  assumes "fromOptions_static P F (Some opts) = Inr (this :: 'r LedgerTXInput)"
  shows
   "(\<not> notNullish (opts ''publicKey'') \<longrightarrow>
       getRing K primary network this = Inl (LedgerError ''Cannot return ring without public key'')) \<and>
    (notNullish (opts ''publicKey'') \<longrightarrow>
       (\<exists>key. opts ''publicKey'' = JBuffer key \<and>
          (\<forall>e. K key (case network of None \<Rightarrow> primary | Some n \<Rightarrow> n) = Inl e \<longrightarrow>
               getRing K primary network this = Inl e) \<and>
          (\<forall>ring. K key (case network of None \<Rightarrow> primary | Some n \<Rightarrow> n) = Inr ring \<longrightarrow>
             (\<exists>ring'. getRing K primary network this = Inr (ring', this\<lparr>cache_ring := Some ring'\<rparr>) \<and>
                ring_body ring' = ring_body ring \<and>
                (\<forall>s. opts ''redeem'' = JScript s \<longrightarrow> ring_script ring' = Some s) \<and>
                (\<not> notNullish (opts ''redeem'') \<longrightarrow> ring' = ring)))))"
proof (cases "notNullish (opts ''publicKey'')")
  case False
  with fromOptions_static_fields(1) [OF assms] show ?thesis
    by (simp add: getRing_def)
next
  case True
  then obtain key where key: "opts ''publicKey'' = JBuffer key"
    using fromOptions_static_fields(7) [OF assms] by (auto simp: isBuffer_iff)
  have pk: "publicKey this = Some key" and cr: "cache_ring this = None"
    using fromOptions_static_fields(1,3) [OF assms] True key by simp_all
  have rd: "redeem this = (if notNullish (opts ''redeem'') then scriptOf (opts ''redeem'') else None)"
    by (rule fromOptions_static_fields(2) [OF assms])
  have "\<exists>s. opts ''redeem'' = JScript s" if "notNullish (opts ''redeem'')"
    using fromOptions_static_fields(8) [OF assms that] by (simp add: isScript_iff)
  then show ?thesis
    using True key
    by (auto simp: getRing_def pk cr rd andThen_simps Let_def)
qed

theorem getRing_constructed_witness:
  "fromOptions_static noParsePath noFromRaw (Some exampleOptions) = Inr exampleInput \<and>
   getRing exampleKeyRing_fromPublic ''main'' None exampleInput =
     Inr (\<lparr> ring_body = (exampleKey, ''main''), ring_script = Some (Script [0x52, 0xAE]) \<rparr>,
          exampleInput\<lparr>cache_ring :=
            Some \<lparr> ring_body = (exampleKey, ''main''),
                   ring_script = Some (Script [0x52, 0xAE]) \<rparr>\<rparr>) \<and>
   fromOptions_static noParsePath noFromRaw (Some (exampleOptions(''publicKey'' := Undefined))) =
     Inr (exampleInput\<lparr>publicKey := None\<rparr>) \<and>
   getRing exampleKeyRing_fromPublic ''main'' None (exampleInput\<lparr>publicKey := None\<rparr>) =
     Inl (LedgerError ''Cannot return ring without public key'')"
proof -
  have without: "fromOptions_static noParsePath noFromRaw
                   (Some (exampleOptions(''publicKey'' := Undefined))) =
                 Inr (exampleInput\<lparr>publicKey := None\<rparr>)"
    by (simp add: fromOptions_static_def fromOptions_Some resolvePath_def resolveTx_def
          exampleOptions_def exampleInput_def noOptions_def newInput_def hashType_ALL_def)
  show ?thesis
    using getRing_constructed [OF exampleOptions_constructs, of exampleKeyRing_fromPublic "''main''" None]
          getRing_constructed [OF without, of exampleKeyRing_fromPublic "''main''" None]
          exampleOptions_constructs without
    by (simp add: getRing_def andThen_simps exampleKey_accepted exampleInput_def
          exampleOptions_def Let_def)
qed

text \<open>
  C5. In every state, \<^verbatim>\<open>refresh()\<close> clears the four cached derived values (coin,
  ring, outpoint key, previous script) and leaves the fields \<^verbatim>\<open>path\<close>, \<^verbatim>\<open>tx\<close>,
  \<^verbatim>\<open>index\<close>, \<^verbatim>\<open>redeem\<close>, \<^verbatim>\<open>type\<close> and \<^verbatim>\<open>publicKey\<close> as they were.
\<close>

theorem refresh_clears_caches_only:
  "cache_coin (refresh this) = None \<and> cache_ring (refresh this) = None \<and>
   cache_key (refresh this) = [] \<and> cache_prev (refresh this) = None \<and>
   path (refresh this) = path this \<and> tx (refresh this) = tx this \<and>
   index (refresh this) = index this \<and> redeem (refresh this) = redeem this \<and>
   type (refresh this) = type this \<and> publicKey (refresh this) = publicKey this"
  by (simp add: refresh_def)

section \<open>Properties of the output finalization\<close>




text \<open>Out of order, the first finalize command is refused and nothing is sent.\<close>

lemma hashOutputFinalize_OutOfOrder:
  "\<not> finalizeAllowed (phase session) \<Longrightarrow> outputs t \<noteq> [] \<Longrightarrow>
   hashOutputFinalize ff ex af t session d = (Inl OutOfOrder, d)"
  by (cases "outputs t") (simp_all add: hashOutputFinalize_def)

lemma hashOutputFinalize_newSession:
  "hashOutputFinalize exampleFinalizeFrame echoExchange exampleApprovalFlag twoOutputTX
     newSession 0 = (Inl OutOfOrder, 0)"
  by (simp add: hashOutputFinalize_def twoOutputTX_def newSession_def)



end
